theory Spec2Isabelle
  imports Complex_Main "HOL-Library.Char_ord" "HOL-Library.List_Lexorder" "HOL-Library.Multiset"
begin

section \<open>The ledger store: class FinanceDatabase\<close>

text \<open>
  The store is an SQLite file with three tables. A table that has not been created yet is
  \<open>None\<close>. Text columns are byte strings, compared byte by byte as SQLite's default
  collation does (the lexicographic order of \<open>char list\<close>); a REAL column is modelled by
  \<open>real\<close>, so the rounding of IEEE doubles is outside the model. A Python argument that
  may be \<open>None\<close> is an \<open>option\<close>. Failures of the disk itself are outside the model.
\<close>

datatype error =
    OperationalError   \<comment> \<open>sqlite3: no such table, or no row id left\<close>
  | IntegrityError     \<comment> \<open>sqlite3: NOT NULL constraint failed\<close>
  | DatabaseError      \<comment> \<open>pandas: the query could not be executed\<close>
  | AttributeError     \<comment> \<open>the object has no such attribute\<close>
  | IndexError
  | ValueError
  | OtherError         \<comment> \<open>any other exception\<close>

record expense_row =
  expense_id :: int
  date :: string
  amount :: real
  description :: string
  category :: string
  payment_method :: "string option"
  created_at :: string

record budget_row =
  budget_id :: int
  budget_category :: string
  budget_amount :: real
  month_year :: string

record income_row =
  income_id :: int
  income_date :: string
  income_amount :: real
  source :: string
  income_created_at :: string

text \<open>
  A table holds its rows in insertion order and, for its AUTOINCREMENT key, the largest row
  id handed out so far (the entry of \<open>sqlite_sequence\<close>).
\<close>

record 'r table =
  rows :: "'r list"
  seq :: int

record database =
  expenses :: "expense_row table option"
  budgets :: "budget_row table option"
  income :: "income_row table option"

definition create_table_if_not_exists :: "'r table option \<Rightarrow> 'r table option" where
  "create_table_if_not_exists t =
     (case t of None \<Rightarrow> Some \<lparr>rows = [], seq = 0\<rparr> | Some x \<Rightarrow> Some x)"

definition init_database :: "database \<Rightarrow> database" where
  "init_database db =
     db\<lparr>expenses := create_table_if_not_exists (expenses db),
        budgets := create_table_if_not_exists (budgets db),
        income := create_table_if_not_exists (income db)\<rparr>"

text \<open>The file before the first start: no table at all.\<close>

definition no_tables :: database where
  "no_tables = \<lparr>expenses = None, budgets = None, income = None\<rparr>"

definition max_rowid :: int where
  "max_rowid = 9223372036854775807"

definition largest_rowid :: "expense_row table \<Rightarrow> int" where
  "largest_rowid t = max (seq t) (fold max (map expense_id (rows t)) 0)"

text \<open>
  \<open>add_expense\<close>: one INSERT. \<open>now\<close> is the clock's CURRENT_TIMESTAMP. The statement names
  the column \<open>payment_method\<close>, so its DEFAULT never applies: Python's default argument
  supplies 'Cash', and a \<open>None\<close> passed explicitly is stored as NULL.
\<close>

definition add_expense ::
  "database \<Rightarrow> string \<Rightarrow> string option \<Rightarrow> real option \<Rightarrow> string option \<Rightarrow> string option
     \<Rightarrow> string option \<Rightarrow> error + database" where
  "add_expense db now date_arg amount_arg description_arg category_arg payment_method_arg =
     (case expenses db of
        None \<Rightarrow> Inl OperationalError
      | Some t \<Rightarrow>
          if largest_rowid t \<ge> max_rowid then Inl OperationalError
          else if date_arg = None \<or> amount_arg = None \<or> description_arg = None
                  \<or> category_arg = None then Inl IntegrityError
          else Inr (db\<lparr>expenses := Some
                 (t\<lparr>rows := rows t @
                       [\<lparr>expense_id = largest_rowid t + 1,
                         date = the date_arg,
                         amount = the amount_arg,
                         description = the description_arg,
                         category = the category_arg,
                         payment_method = payment_method_arg,
                         created_at = now\<rparr>],
                    seq := largest_rowid t + 1\<rparr>)\<rparr>))"

text \<open>Python's truth value of an optional string: \<open>None\<close> and the empty string are false.\<close>

definition truthy :: "string option \<Rightarrow> bool" where
  "truthy s = (case s of None \<Rightarrow> False | Some x \<Rightarrow> x \<noteq> [])"

text \<open>\<open>x BETWEEN lo AND hi\<close> on text values.\<close>

definition between :: "string \<Rightarrow> string \<Rightarrow> string \<Rightarrow> bool" where
  "between x lo hi \<longleftrightarrow> lo \<le> x \<and> x \<le> hi"

text \<open>
  \<open>ORDER BY date DESC\<close>. SQL leaves the order among rows of equal date open; the model
  fixes one such order, and no theorem below depends on which.
\<close>

definition order_by_date_desc :: "expense_row list \<Rightarrow> expense_row list" where
  "order_by_date_desc rs = rev (sort_key date rs)"

definition get_expenses ::
  "database \<Rightarrow> string option \<Rightarrow> string option \<Rightarrow> error + expense_row list" where
  "get_expenses db start_date end_date =
     (case expenses db of
        None \<Rightarrow> Inl DatabaseError
      | Some t \<Rightarrow>
          if truthy start_date \<and> truthy end_date
          then Inr (order_by_date_desc
                 (filter (\<lambda>r. between (date r) (the start_date) (the end_date)) (rows t)))
          else Inr (order_by_date_desc (rows t)))"




text \<open>
  The rows the two queries select before they order or group them: the WHERE clause in the
  first branch of the \<open>if\<close>, every row in the second.
\<close>

definition selected :: "string option \<Rightarrow> string option \<Rightarrow> expense_row list \<Rightarrow> expense_row list" where
  "selected start_date end_date rs =
     (if truthy start_date \<and> truthy end_date
      then filter (\<lambda>r. between (date r) (the start_date) (the end_date)) rs
      else rs)"


text \<open>
  Attribute lookup on a FinanceDatabase. The class and its \<open>__init__\<close> give an instance the
  six names below. Whatever else it has it inherits from \<open>object\<close>, under names that begin
  with two underscores; for such a name the lookup is left open (\<open>None\<close>). Every other name
  raises AttributeError.
\<close>

definition FinanceDatabase_attributes :: "string list" where
  "FinanceDatabase_attributes =
     [''db_name'', ''__init__'', ''init_database'', ''add_expense'', ''get_expenses'',
      ''get_category_totals'']"

definition getattr_FinanceDatabase :: "string \<Rightarrow> (error + string) option" where
  "getattr_FinanceDatabase name =
     (if name \<in> set FinanceDatabase_attributes then Some (Inr name)
      else if take 2 name = ''__'' then None
      else Some (Inl AttributeError))"

definition income_rows :: "database \<Rightarrow> income_row list" where
  "income_rows db = (case income db of None \<Rightarrow> [] | Some t \<Rightarrow> rows t)"

definition budget_rows :: "database \<Rightarrow> budget_row list" where
  "budget_rows db = (case budgets db of None \<Rightarrow> [] | Some t \<Rightarrow> rows t)"

section \<open>The budget form: FinanceTrackerGUI.set_budget\<close>

text \<open>
  The part of the window \<open>set_budget\<close> touches: the store and the two entry fields of the
  budget tab. The handler returns the window and the message box it shows. \<open>float\<close> is
  Python's conversion of the entry text (\<open>None\<close> where it raises ValueError).
\<close>

record gui =
  gui_db :: database
  budget_category_var :: string
  budget_amount_var :: string

datatype messagebox =
    ShowError string
  | ShowInfo_budget_set string real   \<comment> \<open>"Budget set for <category>: $<amount>"\<close>

definition set_budget :: "(string \<Rightarrow> real option) \<Rightarrow> gui \<Rightarrow> gui \<times> messagebox" where
  "set_budget float g =
     (let category = budget_category_var g; amount = budget_amount_var g in
      if category = [] \<or> amount = [] then (g, ShowError ''Please fill all fields'')
      else (case float amount of
              Some a \<Rightarrow> (g\<lparr>budget_category_var := [], budget_amount_var := []\<rparr>,
                         ShowInfo_budget_set category a)
            | None \<Rightarrow> (g, ShowError ''Please enter a valid amount'')))"

text \<open>The user fills in the two fields of the budget tab.\<close>

definition enter_budget :: "string \<Rightarrow> string \<Rightarrow> gui \<Rightarrow> gui" where
  "enter_budget c a g = g\<lparr>budget_category_var := c, budget_amount_var := a\<rparr>"

section \<open>The categorizer: class ExpenseCategorizer\<close>

definition categories :: "string list" where
  "categories =
     [''Food & Dining'', ''Transportation'', ''Shopping'', ''Entertainment'',
      ''Bills & Utilities'', ''Healthcare'', ''Education'', ''Travel'',
      ''Personal Care'', ''Home & Garden'', ''Miscellaneous'']"

definition training_data :: "(string \<times> string) list" where
  "training_data =
     [(''pizza delivery'', ''Food & Dining''),
      (''grocery store'', ''Food & Dining''),
      (''restaurant bill'', ''Food & Dining''),
      (''coffee shop'', ''Food & Dining''),
      (''gas station'', ''Transportation''),
      (''uber ride'', ''Transportation''),
      (''bus ticket'', ''Transportation''),
      (''car maintenance'', ''Transportation''),
      (''amazon purchase'', ''Shopping''),
      (''clothing store'', ''Shopping''),
      (''electronics'', ''Shopping''),
      (''movie tickets'', ''Entertainment''),
      (''concert'', ''Entertainment''),
      (''streaming service'', ''Entertainment''),
      (''electricity bill'', ''Bills & Utilities''),
      (''phone bill'', ''Bills & Utilities''),
      (''internet'', ''Bills & Utilities''),
      (''doctor visit'', ''Healthcare''),
      (''pharmacy'', ''Healthcare''),
      (''dental'', ''Healthcare''),
      (''tuition'', ''Education''),
      (''books'', ''Education''),
      (''hotel'', ''Travel''),
      (''flight'', ''Travel''),
      (''haircut'', ''Personal Care''),
      (''cosmetics'', ''Personal Care''),
      (''home depot'', ''Home & Garden''),
      (''garden supplies'', ''Home & Garden'')]"

text \<open>
  The scikit-learn pipeline is a library object; the model keeps what \<open>categorize\<close> uses
  of it: its truth value and its two methods, each of which may raise.
\<close>

record model =
  truth_value :: bool
  predict :: "string list \<Rightarrow> error + string list"
  predict_proba :: "string list \<Rightarrow> error + real list list"

text \<open>
  \<open>create_initial_model\<close> fits a new pipeline on the bundled examples; \<open>fit\<close> stands for the
  library's construction and training of the pipeline.
\<close>

definition create_initial_model :: "(string list \<Rightarrow> string list \<Rightarrow> model) \<Rightarrow> model" where
  "create_initial_model fit = fit (map fst training_data) (map snd training_data)"

text \<open>
  \<open>load_or_create_model\<close>: the pickle file is absent (\<open>None\<close>), or loading it raises, or it
  yields an object.
\<close>

definition load_or_create_model ::
  "(string list \<Rightarrow> string list \<Rightarrow> model) \<Rightarrow> (error + model) option \<Rightarrow> model" where
  "load_or_create_model fit pkl =
     (case pkl of
        None \<Rightarrow> create_initial_model fit
      | Some (Inl e) \<Rightarrow> create_initial_model fit
      | Some (Inr m) \<Rightarrow> m)"

text \<open>
  \<open>str.lower\<close>. On ASCII text it maps A..Z to a..z (the code of the letter plus 32, which
  is the letter with the bit of value 32 set) and leaves the rest. A string with a
  byte beyond ASCII holds characters whose lower case is a matter of the Unicode tables:
  \<open>unicode_lower\<close> stands for Python's result on such a string.
\<close>

definition ascii :: "string \<Rightarrow> bool" where
  "ascii s = list_all (\<lambda>c. c \<le> CHR 0x7F) s"

definition lower_char :: "char \<Rightarrow> char" where
  "lower_char c =
     (if CHR ''A'' \<le> c \<and> c \<le> CHR ''Z''
      then Char (digit0 c) (digit1 c) (digit2 c) (digit3 c) (digit4 c) True (digit6 c) (digit7 c)
      else c)"

definition lower :: "(string \<Rightarrow> string) \<Rightarrow> string \<Rightarrow> string" where
  "lower unicode_lower s = (if ascii s then map lower_char s else unicode_lower s)"

text \<open>\<open>xs[0]\<close> and \<open>max(xs)\<close>.\<close>

definition first :: "'a list \<Rightarrow> error + 'a" where
  "first xs = (case xs of [] \<Rightarrow> Inl IndexError | x # _ \<Rightarrow> Inr x)"

definition py_max :: "real list \<Rightarrow> error + real" where
  "py_max xs = (case xs of [] \<Rightarrow> Inl ValueError | x # ys \<Rightarrow> Inr (fold max ys x))"

text \<open>
  The body of the \<open>try\<close> in \<open>categorize\<close>: \<open>Inr None\<close> when it falls through the \<open>if\<close>
  without returning. A description that is not a string (\<open>None\<close>) has no \<open>lower\<close>.
\<close>

definition categorize_try ::
  "(string \<Rightarrow> string) \<Rightarrow> model option \<Rightarrow> string option \<Rightarrow> error + string option" where
  "categorize_try unicode_lower m description_arg =
     (case m of
        None \<Rightarrow> Inr None
      | Some md \<Rightarrow>
          if \<not> truth_value md then Inr None
          else (case description_arg of
            None \<Rightarrow> Inl AttributeError
          | Some d \<Rightarrow>
              (case predict md [lower unicode_lower d] of
                 Inl e \<Rightarrow> Inl e
               | Inr ps \<Rightarrow>
                   (case first ps of
                      Inl e \<Rightarrow> Inl e
                    | Inr prediction \<Rightarrow>
                        (case predict_proba md [lower unicode_lower d] of
                           Inl e \<Rightarrow> Inl e
                         | Inr pp \<Rightarrow>
                             (case first pp of
                                Inl e \<Rightarrow> Inl e
                              | Inr probs \<Rightarrow>
                                  (case py_max probs of
                                     Inl e \<Rightarrow> Inl e
                                   | Inr confidence \<Rightarrow>
                                       Inr (Some (if confidence > 0.3 then prediction
                                                  else ''Miscellaneous'')))))))))"

definition categorize ::
  "(string \<Rightarrow> string) \<Rightarrow> model option \<Rightarrow> string option \<Rightarrow> error + string" where
  "categorize unicode_lower m description_arg =
     (case categorize_try unicode_lower m description_arg of
        Inr (Some c) \<Rightarrow> Inr c
      | Inr None \<Rightarrow> Inr ''Miscellaneous''
      | Inl e \<Rightarrow> Inr ''Miscellaneous'')"

text \<open>
  What the library promises of a fitted classifier: it predicts only labels it was trained
  on (the pipeline's \<open>classes_\<close> are the distinct training labels).
\<close>

definition predicts_training_labels :: "(string list \<Rightarrow> string list \<Rightarrow> model) \<Rightarrow> bool" where
  "predicts_training_labels fit \<longleftrightarrow>
     (\<forall>X y docs ps. predict (fit X y) docs = Inr ps \<longrightarrow> set ps \<subseteq> set y)"

section \<open>The classifier: the scikit-learn pipeline\<close>

text \<open>
  Modelled from the scikit-learn documentation: the pipeline \<open>create_initial_model\<close> builds,
  \<open>TfidfVectorizer(lowercase=True, stop_words='english')\<close> followed by \<open>MultinomialNB()\<close>,
  every other setting at its default. The library computes in IEEE doubles; the model
  computes in real numbers.
\<close>

text \<open>
  The analyzer: lower-case the text, take as tokens the maximal runs of two or more word
  characters (the token pattern \<open>\b\w\w+\b\<close>), drop the stop words. On ASCII text the word
  characters are the letters, the digits and the underscore. What the analyzer makes of a
  text with a byte beyond ASCII is a matter of the Unicode tables: \<open>unicode_analyze\<close> stands
  for its result on such a text.
\<close>

definition word_char :: "char \<Rightarrow> bool" where
  "word_char c \<longleftrightarrow>
     (CHR ''a'' \<le> c \<and> c \<le> CHR ''z'') \<or> (CHR ''A'' \<le> c \<and> c \<le> CHR ''Z'')
     \<or> (CHR ''0'' \<le> c \<and> c \<le> CHR ''9'') \<or> c = CHR ''_''"

fun word_runs :: "string \<Rightarrow> string \<Rightarrow> string list" where
  "word_runs run [] = [run]"
| "word_runs run (c # cs) =
     (if word_char c then word_runs (run @ [c]) cs else run # word_runs [] cs)"

definition tokenize :: "string \<Rightarrow> string list" where
  "tokenize s = filter (\<lambda>w. 2 \<le> length w) (word_runs [] s)"

definition analyze :: "string list \<Rightarrow> (string \<Rightarrow> string list) \<Rightarrow> string \<Rightarrow> string list" where
  "analyze stop_words unicode_analyze doc =
     (if ascii doc then filter (\<lambda>w. w \<notin> set stop_words) (tokenize (map lower_char doc))
      else unicode_analyze doc)"

text \<open>
  Of the library's English stop list, a pipeline fitted on the bundled examples uses no more
  than the words that occur in them: a word outside the vocabulary counts for nothing when
  a text is classified, stop word or not. Of the words of the examples the list holds one.
\<close>

definition stop_words_in_examples :: "string list" where
  "stop_words_in_examples = [''bill'']"

text \<open>
  The vectorizer, fitted on the token lists \<open>D\<close> of the training texts. The vocabulary is
  the sorted set of their tokens; \<open>df\<close> counts the texts a term occurs in; the smoothed
  inverse document frequency is \<open>ln ((1 + n) / (1 + df)) + 1\<close>. A text becomes the vector of
  its term counts times \<open>idf\<close> over the vocabulary, divided by its Euclidean norm unless
  that is zero.
\<close>

definition vocabulary :: "string list list \<Rightarrow> string list" where
  "vocabulary D = sort (remdups (concat D))"

definition df :: "string list list \<Rightarrow> string \<Rightarrow> nat" where
  "df D t = length (filter (\<lambda>d. t \<in> set d) D)"

definition idf :: "string list list \<Rightarrow> string \<Rightarrow> real" where
  "idf D t = ln ((1 + real (length D)) / (1 + real (df D t))) + 1"

definition weight :: "string list list \<Rightarrow> string list \<Rightarrow> string \<Rightarrow> real" where
  "weight D d t = real (count_list d t) * idf D t"

definition l2_norm :: "string list list \<Rightarrow> string list \<Rightarrow> real" where
  "l2_norm D d = sqrt (\<Sum>t\<leftarrow>vocabulary D. (weight D d t)\<^sup>2)"

definition tfidf :: "string list list \<Rightarrow> string list \<Rightarrow> string \<Rightarrow> real" where
  "tfidf D d t = (if l2_norm D d = 0 then 0 else weight D d t / l2_norm D d)"

text \<open>
  The classifier, multinomial naive Bayes with smoothing 1, fitted on the vectors of the
  training texts and their labels \<open>y\<close>. Its classes are the sorted distinct labels. For a
  class, \<open>feature_count\<close> adds up the vectors of its texts; the log probability of a term is
  the logarithm of its smoothed count minus that of the sum of the smoothed counts of all
  terms; the log prior is the logarithm of the share of the class among the texts.
\<close>

definition classes :: "string list \<Rightarrow> string list" where
  "classes y = sort (remdups y)"

definition class_docs :: "string list list \<Rightarrow> string list \<Rightarrow> string \<Rightarrow> string list list" where
  "class_docs D y c = map fst (filter (\<lambda>p. snd p = c) (zip D y))"

definition feature_count :: "string list list \<Rightarrow> string list \<Rightarrow> string \<Rightarrow> string \<Rightarrow> real" where
  "feature_count D y c t = (\<Sum>d\<leftarrow>class_docs D y c. tfidf D d t)"

definition smoothed_total :: "string list list \<Rightarrow> string list \<Rightarrow> string \<Rightarrow> real" where
  "smoothed_total D y c = (\<Sum>t\<leftarrow>vocabulary D. feature_count D y c t + 1)"

definition feature_log_prob :: "string list list \<Rightarrow> string list \<Rightarrow> string \<Rightarrow> string \<Rightarrow> real" where
  "feature_log_prob D y c t = ln (feature_count D y c t + 1) - ln (smoothed_total D y c)"

definition class_log_prior :: "string list list \<Rightarrow> string list \<Rightarrow> string \<Rightarrow> real" where
  "class_log_prior D y c = ln (real (length (class_docs D y c)) / real (length y))"

text \<open>
  Classifying the tokens \<open>d\<close> of a text: the joint log likelihood of a class is its log
  prior plus the product of the vector of the text with the log probabilities of the terms.
  \<open>predict_proba\<close> normalises the exponentials of the likelihoods to sum 1, in the order of
  the classes; \<open>predict\<close> answers the first class of largest likelihood.
\<close>

definition joint_log_likelihood ::
  "string list list \<Rightarrow> string list \<Rightarrow> string list \<Rightarrow> string \<Rightarrow> real" where
  "joint_log_likelihood D y d c =
     class_log_prior D y c + (\<Sum>t\<leftarrow>vocabulary D. tfidf D d t * feature_log_prob D y c t)"

definition class_proba :: "string list list \<Rightarrow> string list \<Rightarrow> string list \<Rightarrow> real list" where
  "class_proba D y d =
     map (\<lambda>c. exp (joint_log_likelihood D y d c)
            / (\<Sum>c'\<leftarrow>classes y. exp (joint_log_likelihood D y d c')))
       (classes y)"

definition arg_max_class :: "(string \<Rightarrow> real) \<Rightarrow> string \<Rightarrow> string list \<Rightarrow> string" where
  "arg_max_class score c cs = fold (\<lambda>c' best. if score best < score c' then c' else best) cs c"

text \<open>
  The fitted pipeline as \<open>categorize\<close> sees it. A pipeline of two steps has length 2, so it
  is true.
\<close>

definition sklearn_fit ::
  "string list \<Rightarrow> (string \<Rightarrow> string list) \<Rightarrow> string list \<Rightarrow> string list \<Rightarrow> model" where
  "sklearn_fit stop_words unicode_analyze X y =
     \<lparr>truth_value = True,
      predict = (\<lambda>docs. case classes y of
         [] \<Rightarrow> Inl ValueError
       | c # cs \<Rightarrow> Inr (map (\<lambda>doc. arg_max_class
           (joint_log_likelihood (map (analyze stop_words unicode_analyze) X) y
              (analyze stop_words unicode_analyze doc)) c cs) docs)),
      predict_proba = (\<lambda>docs. Inr (map (\<lambda>doc. class_proba
           (map (analyze stop_words unicode_analyze) X) y
           (analyze stop_words unicode_analyze doc)) docs))\<rparr>"

text \<open>The sum of the entries of the vector of a text.\<close>

definition row_sum :: "string list list \<Rightarrow> string list \<Rightarrow> real" where
  "row_sum D d = (\<Sum>t\<leftarrow>vocabulary D. tfidf D d t)"

text \<open>The token lists and the labels of the bundled examples.\<close>

definition training_tokens :: "string list list" where
  "training_tokens =
     [[''pizza'', ''delivery''],
      [''grocery'', ''store''],
      [''restaurant''],
      [''coffee'', ''shop''],
      [''gas'', ''station''],
      [''uber'', ''ride''],
      [''bus'', ''ticket''],
      [''car'', ''maintenance''],
      [''amazon'', ''purchase''],
      [''clothing'', ''store''],
      [''electronics''],
      [''movie'', ''tickets''],
      [''concert''],
      [''streaming'', ''service''],
      [''electricity''],
      [''phone''],
      [''internet''],
      [''doctor'', ''visit''],
      [''pharmacy''],
      [''dental''],
      [''tuition''],
      [''books''],
      [''hotel''],
      [''flight''],
      [''haircut''],
      [''cosmetics''],
      [''home'', ''depot''],
      [''garden'', ''supplies'']]"

definition training_labels :: "string list" where
  "training_labels = map snd training_data"


section \<open>Example states\<close>

definition example_row1 :: expense_row where
  "example_row1 =
     \<lparr>expense_id = 1, date = ''2024-03-10'', amount = 25 / 2, description = ''pizza delivery'',
      category = ''Food & Dining'', payment_method = Some ''Cash'',
      created_at = ''2024-03-10 19:02:11''\<rparr>"

definition example_row2 :: expense_row where
  "example_row2 =
     \<lparr>expense_id = 2, date = ''2024-03-15'', amount = 40, description = ''gas station'',
      category = ''Transportation'', payment_method = Some ''Credit Card'',
      created_at = ''2024-03-15 08:30:00''\<rparr>"

definition example_row3 :: expense_row where
  "example_row3 =
     \<lparr>expense_id = 3, date = ''2024-04-02'', amount = 15 / 2, description = ''coffee shop'',
      category = ''Food & Dining'', payment_method = Some ''Cash'',
      created_at = ''2024-04-02 09:12:45''\<rparr>"

definition example_rows :: "expense_row list" where
  "example_rows = [example_row1, example_row2, example_row3]"

definition example_table :: "expense_row table" where
  "example_table = \<lparr>rows = example_rows, seq = 3\<rparr>"

definition example_db :: database where
  "example_db =
     \<lparr>expenses = Some example_table,
      budgets = Some \<lparr>rows = [], seq = 0\<rparr>,
      income = Some \<lparr>rows = [], seq = 0\<rparr>\<rparr>"

text \<open>A store whose only expense is dated after the end bound of the query made on it.\<close>

definition late_row :: expense_row where
  "late_row =
     \<lparr>expense_id = 1, date = ''2025-01-01'', amount = 10, description = ''bus ticket'',
      category = ''Transportation'', payment_method = Some ''Cash'',
      created_at = ''2025-01-01 12:00:00''\<rparr>"

definition late_db :: database where
  "late_db =
     \<lparr>expenses = Some \<lparr>rows = [late_row], seq = 1\<rparr>,
      budgets = Some \<lparr>rows = [], seq = 0\<rparr>,
      income = Some \<lparr>rows = [], seq = 0\<rparr>\<rparr>"

text \<open>A freshly started window, and a conversion that reads the two amounts typed below.\<close>

definition fresh_gui :: gui where
  "fresh_gui =
     \<lparr>gui_db = init_database no_tables, budget_category_var = [], budget_amount_var = []\<rparr>"

definition example_float :: "string \<Rightarrow> real option" where
  "example_float s =
     (if s = ''500'' then Some 500 else if s = ''750'' then Some 750 else None)"

text \<open>A model whose \<open>predict\<close> raises, and a training function with a constant classifier.\<close>

definition failing_model :: model where
  "failing_model =
     \<lparr>truth_value = True, predict = (\<lambda>docs. Inl OtherError),
      predict_proba = (\<lambda>docs. Inr [[1]])\<rparr>"

definition first_label_fit :: "string list \<Rightarrow> string list \<Rightarrow> model" where
  "first_label_fit X y =
     \<lparr>truth_value = True, predict = (\<lambda>docs. Inr (take 1 y)),
      predict_proba = (\<lambda>docs. Inr [[1]])\<rparr>"

text \<open>A model that answers with the text it was given, at a confidence of 0.9.\<close>

definition echo_model :: model where
  "echo_model =
     \<lparr>truth_value = True, predict = (\<lambda>docs. Inr docs),
      predict_proba = (\<lambda>docs. Inr (map (\<lambda>doc. [9 / 10, 1 / 10]) docs))\<rparr>"

text \<open>A model as another program could have pickled it, trained on labels of its own.\<close>

definition foreign_model :: model where
  "foreign_model =
     \<lparr>truth_value = True, predict = (\<lambda>docs. Inr (map (\<lambda>doc. ''Gambling'') docs)),
      predict_proba = (\<lambda>docs. Inr (map (\<lambda>doc. [1]) docs))\<rparr>"

definition after_first_budget :: "gui \<times> messagebox" where
  "after_first_budget =
     set_budget example_float (enter_budget ''Food & Dining'' ''500'' fresh_gui)"

definition after_second_budget :: "gui \<times> messagebox" where
  "after_second_budget =
     set_budget example_float (enter_budget ''Food & Dining'' ''750'' (fst after_first_budget))"

section \<open>Facts about the queries\<close>

lemma mset_order_by_date_desc: "mset (order_by_date_desc rs) = mset rs"
  by (simp add: order_by_date_desc_def)

lemma set_order_by_date_desc: "set (order_by_date_desc rs) = set rs"
  by (simp add: order_by_date_desc_def)

lemma length_order_by_date_desc: "length (order_by_date_desc rs) = length rs"
  by (simp add: order_by_date_desc_def)

lemma sorted_order_by_date_desc: "sorted (rev (map date (order_by_date_desc rs)))"
  by (simp add: order_by_date_desc_def rev_map [symmetric])

lemma get_expenses_selected:
  "expenses db = Some t \<Longrightarrow>
     get_expenses db start_date end_date =
       Inr (order_by_date_desc (selected start_date end_date (rows t)))"
  by (simp add: get_expenses_def selected_def)








lemma create_table_if_not_exists_idem:
  "create_table_if_not_exists (create_table_if_not_exists t) = create_table_if_not_exists t"
  by (cases t) (simp_all add: create_table_if_not_exists_def)

lemma init_database_idem: "init_database (init_database db) = init_database db"
  by (simp add: init_database_def create_table_if_not_exists_idem)

lemma init_database_funpow: "(init_database ^^ Suc n) db = init_database db"
  by (induction n) (simp_all add: init_database_idem)

text \<open>The identifier \<open>add_expense\<close> assigns is not the identifier of any stored expense.\<close>

lemma fold_max_ge: "(m::int) \<le> fold max xs m"
  by (induction xs arbitrary: m) (auto intro: order_trans [OF max.cobounded2])

lemma fold_max_upper: "(x::int) \<in> set xs \<Longrightarrow> x \<le> fold max xs m"
proof (induction xs arbitrary: m)
  case Nil
  then show ?case by simp
next
  case (Cons y ys)
  show ?case
  proof (cases "x = y")
    case True
    have "x \<le> max y m" using True by simp
    also have "\<dots> \<le> fold max ys (max y m)" by (rule fold_max_ge)
    finally show ?thesis by simp
  next
    case False
    with Cons show ?thesis by simp
  qed
qed

lemma add_expense_fresh_id:
  "r \<in> set (rows t) \<Longrightarrow> expense_id r < largest_rowid t + 1"
proof -
  assume "r \<in> set (rows t)"
  then have "expense_id r \<in> set (map expense_id (rows t))" by simp
  then have "expense_id r \<le> fold max (map expense_id (rows t)) 0" by (rule fold_max_upper)
  then show ?thesis by (simp add: largest_rowid_def)
qed

section \<open>Facts about the budget form and the categorizer\<close>

lemma set_budget_gui_db: "gui_db (fst (set_budget float g)) = gui_db g"
  by (simp add: set_budget_def Let_def split: option.splits)

text \<open>
  The rule \<open>categorize\<close> applies to a model that answers: the prediction when the largest
  class probability exceeds 0.3, 'Miscellaneous' otherwise, on the lower-cased description.
\<close>

lemma categorize_threshold:
  assumes "truth_value md"
    and "predict md [lower ul s] = Inr (p # ps)"
    and "predict_proba md [lower ul s] = Inr ((q # qs) # pp)"
  shows "categorize ul (Some md) (Some s) =
           Inr (if fold max qs q > 0.3 then p else ''Miscellaneous'')"
  using assms by (simp add: categorize_def categorize_try_def first_def py_max_def)

lemma categorize_returns:
  "categorize ul m d = Inr ''Miscellaneous'' \<or>
   (\<exists>md s ps. m = Some md \<and> d = Some s \<and> predict md [lower ul s] = Inr ps \<and> ps \<noteq> []
      \<and> categorize ul m d = Inr (hd ps))"
  by (auto simp add: categorize_def categorize_try_def first_def py_max_def
      split: option.splits sum.splits list.splits if_splits)

lemma training_labels_in_categories: "set (map snd training_data) \<subseteq> set categories"
  by (simp add: training_data_def categories_def)

lemma Miscellaneous_in_categories: "''Miscellaneous'' \<in> set categories"
  by (simp add: categories_def)

section \<open>Facts about the pipeline\<close>

lemma ascii_simps: "ascii [] = True" "ascii (c # cs) = (c \<le> CHR 0x7F \<and> ascii cs)"
  by (simp_all add: ascii_def)

subsection \<open>General facts\<close>

lemma distinct_vocabulary: "distinct (vocabulary D)"
  by (simp add: vocabulary_def)

lemma df_le: "df D t \<le> length D"
  by (simp add: df_def)

lemma idf_ge_1: "1 \<le> idf D t"
proof -
  have "1 + real (df D t) \<le> 1 + real (length D)"
    using df_le [of D t] by simp
  then have "1 \<le> (1 + real (length D)) / (1 + real (df D t))"
    by (simp add: le_divide_eq)
  then have "0 \<le> ln ((1 + real (length D)) / (1 + real (df D t)))"
    by simp
  then show ?thesis by (simp add: idf_def)
qed

lemma weight_nonneg: "0 \<le> weight D d t"
  using idf_ge_1 [of D t] by (simp add: weight_def)

lemma weight_zero: "t \<notin> set d \<Longrightarrow> weight D d t = 0"
  by (simp add: weight_def count_list_0_iff)

lemma weight_pos: "t \<in> set d \<Longrightarrow> 0 < weight D d t"
proof -
  assume "t \<in> set d"
  then have "count_list d t \<noteq> 0"
    by (simp only: count_list_0_iff) simp
  then have "0 < count_list d t" by simp
  moreover have "0 < idf D t" using idf_ge_1 [of D t] by linarith
  ultimately show ?thesis by (simp add: weight_def)
qed

lemma sum_list_sq_nonneg: "0 \<le> (\<Sum>t\<leftarrow>xs. (f t :: real)\<^sup>2)"
  by (rule sum_list_nonneg) auto

lemma l2_norm_nonneg: "0 \<le> l2_norm D d"
  by (simp add: l2_norm_def sum_list_sq_nonneg)

lemma sq_le_sum_list:
  "x \<in> set xs \<Longrightarrow> (f x)\<^sup>2 \<le> (\<Sum>t\<leftarrow>xs. (f t :: real)\<^sup>2)"
proof (induction xs)
  case Nil
  then show ?case by simp
next
  case (Cons a xs)
  have nn: "0 \<le> (\<Sum>t\<leftarrow>xs. (f t)\<^sup>2)" by (rule sum_list_sq_nonneg)
  show ?case
  proof (cases "x = a")
    case True
    with nn show ?thesis by simp
  next
    case False
    with Cons have "(f x)\<^sup>2 \<le> (\<Sum>t\<leftarrow>xs. (f t)\<^sup>2)" by simp
    then show ?thesis by (simp add: add_increasing)
  qed
qed

lemma weight_le_l2_norm: "t \<in> set (vocabulary D) \<Longrightarrow> weight D d t \<le> l2_norm D d"
proof -
  assume "t \<in> set (vocabulary D)"
  then have "(weight D d t)\<^sup>2 \<le> (\<Sum>t\<leftarrow>vocabulary D. (weight D d t)\<^sup>2)"
    by (rule sq_le_sum_list)
  then have "sqrt ((weight D d t)\<^sup>2) \<le> l2_norm D d"
    unfolding l2_norm_def by (rule real_sqrt_le_mono)
  then show ?thesis using weight_nonneg [of D d t] by simp
qed

lemma tfidf_nonneg: "0 \<le> tfidf D d t"
  using weight_nonneg [of D d t] l2_norm_nonneg [of D d] by (simp add: tfidf_def)

lemma tfidf_zero: "t \<notin> set d \<Longrightarrow> tfidf D d t = 0"
  by (simp add: tfidf_def weight_zero)

lemma tfidf_le_1: "t \<in> set (vocabulary D) \<Longrightarrow> tfidf D d t \<le> 1"
  using weight_le_l2_norm [of t D d] l2_norm_nonneg [of D d]
  by (simp add: tfidf_def divide_le_eq)

lemma row_sum_nonneg: "0 \<le> row_sum D d"
  unfolding row_sum_def by (rule sum_list_nonneg) (auto simp add: tfidf_nonneg)

lemma row_sum_le_length: "row_sum D d \<le> real (length d)"
proof -
  let ?V = "vocabulary D"
  have "row_sum D d \<le> (\<Sum>t\<leftarrow>?V. if t \<in> set d then 1 else 0)"
    unfolding row_sum_def
    by (rule sum_list_mono) (simp add: tfidf_le_1 tfidf_zero)
  also have "\<dots> = (\<Sum>t\<in>set ?V. if t \<in> set d then 1 else 0)"
    by (simp add: sum_list_distinct_conv_sum_set distinct_vocabulary)
  also have "\<dots> = real (card (set ?V \<inter> set d))"
    by (simp add: sum.If_cases Int_def)
  also have "\<dots> \<le> real (card (set d))"
    by (simp add: card_mono)
  also have "\<dots> \<le> real (length d)"
    by (simp add: card_length)
  finally show ?thesis .
qed

lemma sum_list_sq_le:
  "(\<And>x. x \<in> set xs \<Longrightarrow> 0 \<le> (x::real)) \<Longrightarrow> (\<Sum>x\<leftarrow>xs. x\<^sup>2) \<le> (sum_list xs)\<^sup>2"
proof (induction xs)
  case Nil
  then show ?case by simp
next
  case (Cons a xs)
  then have ih: "(\<Sum>x\<leftarrow>xs. x\<^sup>2) \<le> (sum_list xs)\<^sup>2" by simp
  have a: "0 \<le> a" using Cons.prems by simp
  have s: "0 \<le> sum_list xs" using Cons.prems by (simp add: sum_list_nonneg)
  have "(a + sum_list xs)\<^sup>2 = a\<^sup>2 + 2 * a * sum_list xs + (sum_list xs)\<^sup>2"
    by (simp add: power2_sum)
  moreover have "0 \<le> 2 * a * sum_list xs" using a s by simp
  ultimately show ?case using ih by simp
qed

lemma sum_list_divide_const:
  "(\<Sum>x\<leftarrow>xs. f x / (c::real)) = (\<Sum>x\<leftarrow>xs. f x) / c"
  by (induction xs) (simp_all add: add_divide_distrib)

lemma row_sum_ge_1:
  assumes "t \<in> set d" and "t \<in> set (vocabulary D)"
  shows "1 \<le> row_sum D d"
proof -
  let ?V = "vocabulary D"
  let ?ws = "map (weight D d) ?V"
  have pos: "0 < l2_norm D d"
    using weight_pos [OF assms(1), of D] weight_le_l2_norm [OF assms(2), of d] by linarith
  have "(\<Sum>x\<leftarrow>?ws. x\<^sup>2) \<le> (sum_list ?ws)\<^sup>2"
    by (rule sum_list_sq_le) (auto simp add: weight_nonneg)
  then have "sqrt (\<Sum>x\<leftarrow>?ws. x\<^sup>2) \<le> sqrt ((sum_list ?ws)\<^sup>2)"
    by (rule real_sqrt_le_mono)
  moreover have "0 \<le> sum_list ?ws"
    by (rule sum_list_nonneg) (auto simp add: weight_nonneg)
  ultimately have le: "l2_norm D d \<le> sum_list ?ws"
    by (simp add: l2_norm_def comp_def)
  have "row_sum D d = (\<Sum>t\<leftarrow>?V. weight D d t / l2_norm D d)"
    using pos by (simp add: row_sum_def tfidf_def)
  also have "\<dots> = sum_list ?ws / l2_norm D d"
    by (simp add: sum_list_divide_const comp_def)
  finally show ?thesis using le pos by (simp add: le_divide_eq)
qed

lemma sum_list_swap:
  "(\<Sum>t\<leftarrow>ts. \<Sum>d\<leftarrow>ds. (f d t :: real)) = (\<Sum>d\<leftarrow>ds. \<Sum>t\<leftarrow>ts. f d t)"
proof (induction ds)
  case Nil
  then show ?case by simp
next
  case (Cons a ds)
  then show ?case by (simp add: sum_list_addf)
qed

lemma smoothed_total_eq:
  "smoothed_total D y c = real (length (vocabulary D)) + (\<Sum>d\<leftarrow>class_docs D y c. row_sum D d)"
proof -
  have "smoothed_total D y c
      = (\<Sum>t\<leftarrow>vocabulary D. \<Sum>d\<leftarrow>class_docs D y c. tfidf D d t) + real (length (vocabulary D))"
    by (simp add: smoothed_total_def feature_count_def sum_list_addf sum_list_triv)
  also have "(\<Sum>t\<leftarrow>vocabulary D. \<Sum>d\<leftarrow>class_docs D y c. tfidf D d t)
      = (\<Sum>d\<leftarrow>class_docs D y c. row_sum D d)"
    unfolding row_sum_def by (rule sum_list_swap)
  finally show ?thesis by simp
qed

lemma sum_tfidf_zero:
  "(\<And>d. d \<in> set ds \<Longrightarrow> t \<notin> set d) \<Longrightarrow> (\<Sum>d\<leftarrow>ds. tfidf D d t) = 0"
  by (induction ds) (simp_all add: tfidf_zero)

lemma feature_count_zero:
  "(\<And>d. d \<in> set (class_docs D y c) \<Longrightarrow> t \<notin> set d) \<Longrightarrow> feature_count D y c t = 0"
  unfolding feature_count_def by (rule sum_tfidf_zero)

subsection \<open>The bundled examples\<close>

lemma analyze_training_data:
  "map (analyze stop_words_in_examples ua) (map fst training_data) = training_tokens"
  by (simp add: training_data_def training_tokens_def analyze_def ascii_simps
      stop_words_in_examples_def tokenize_def lower_char_def word_char_def)

lemma length_training_labels: "length training_labels = 28"
  by (simp add: training_labels_def training_data_def)

lemma classes_training_labels:
  "classes training_labels =
     [''Bills & Utilities'',
      ''Education'',
      ''Entertainment'',
      ''Food & Dining'',
      ''Healthcare'',
      ''Home & Garden'',
      ''Personal Care'',
      ''Shopping'',
      ''Transportation'',
      ''Travel'']"
  by (simp add: classes_def training_labels_def training_data_def)

lemma class_docs_0:
  "class_docs training_tokens training_labels ''Bills & Utilities'' =
     [[''electricity''], [''phone''], [''internet'']]"
  by (simp add: class_docs_def training_tokens_def training_labels_def training_data_def)

lemma class_docs_1:
  "class_docs training_tokens training_labels ''Education'' =
     [[''tuition''], [''books'']]"
  by (simp add: class_docs_def training_tokens_def training_labels_def training_data_def)

lemma class_docs_2:
  "class_docs training_tokens training_labels ''Entertainment'' =
     [[''movie'', ''tickets''], [''concert''], [''streaming'', ''service'']]"
  by (simp add: class_docs_def training_tokens_def training_labels_def training_data_def)

lemma class_docs_3:
  "class_docs training_tokens training_labels ''Food & Dining'' =
     [[''pizza'', ''delivery''], [''grocery'', ''store''], [''restaurant''], [''coffee'', ''shop'']]"
  by (simp add: class_docs_def training_tokens_def training_labels_def training_data_def)

lemma class_docs_4:
  "class_docs training_tokens training_labels ''Healthcare'' =
     [[''doctor'', ''visit''], [''pharmacy''], [''dental'']]"
  by (simp add: class_docs_def training_tokens_def training_labels_def training_data_def)

lemma class_docs_5:
  "class_docs training_tokens training_labels ''Home & Garden'' =
     [[''home'', ''depot''], [''garden'', ''supplies'']]"
  by (simp add: class_docs_def training_tokens_def training_labels_def training_data_def)

lemma class_docs_6:
  "class_docs training_tokens training_labels ''Personal Care'' =
     [[''haircut''], [''cosmetics'']]"
  by (simp add: class_docs_def training_tokens_def training_labels_def training_data_def)

lemma class_docs_7:
  "class_docs training_tokens training_labels ''Shopping'' =
     [[''amazon'', ''purchase''], [''clothing'', ''store''], [''electronics'']]"
  by (simp add: class_docs_def training_tokens_def training_labels_def training_data_def)

lemma class_docs_8:
  "class_docs training_tokens training_labels ''Transportation'' =
     [[''gas'', ''station''], [''uber'', ''ride''], [''bus'', ''ticket''], [''car'', ''maintenance'']]"
  by (simp add: class_docs_def training_tokens_def training_labels_def training_data_def)

lemma class_docs_9:
  "class_docs training_tokens training_labels ''Travel'' =
     [[''hotel''], [''flight'']]"
  by (simp add: class_docs_def training_tokens_def training_labels_def training_data_def)

lemma length_vocabulary: "length (vocabulary training_tokens) = 41"
  by (simp add: vocabulary_def training_tokens_def)

lemma set_vocabulary: "set (vocabulary D) = \<Union> (set ` set D)"
  by (simp add: vocabulary_def)

lemma df_pizza_delivery:
  "df training_tokens ''pizza'' = 1" "df training_tokens ''delivery'' = 1"
  by (simp_all add: df_def training_tokens_def)

lemmas class_docs_training = class_docs_0 class_docs_1 class_docs_2 class_docs_3 class_docs_4 class_docs_5 class_docs_6 class_docs_7 class_docs_8 class_docs_9

lemma sum_list_two_points:
  assumes "distinct xs" and "a \<in> set xs" and "b \<in> set xs" and "a \<noteq> b"
    and "\<And>t. t \<noteq> a \<Longrightarrow> t \<noteq> b \<Longrightarrow> f t = (0::real)"
  shows "(\<Sum>t\<leftarrow>xs. f t) = f a + f b"
proof -
  have "(\<Sum>t\<leftarrow>xs. f t) = sum f (set xs)"
    by (simp add: sum_list_distinct_conv_sum_set assms(1))
  also have "\<dots> = sum f {a, b}"
    by (rule sum.mono_neutral_right) (use assms in auto)
  also have "\<dots> = f a + f b"
    using assms(4) by simp
  finally show ?thesis .
qed

lemma pizza_delivery_in_vocabulary:
  "''pizza'' \<in> set (vocabulary training_tokens)" "''delivery'' \<in> set (vocabulary training_tokens)"
  by (simp_all add: set_vocabulary training_tokens_def)

lemma idf_pizza_delivery: "idf training_tokens ''delivery'' = idf training_tokens ''pizza''"
  by (simp add: idf_def df_pizza_delivery)

lemma weight_pizza_delivery:
  "weight D [''pizza'', ''delivery''] ''pizza'' = idf D ''pizza''"
  "weight D [''pizza'', ''delivery''] ''delivery'' = idf D ''delivery''"
  by (simp_all add: weight_def)

lemma l2_norm_pizza_delivery:
  "l2_norm training_tokens [''pizza'', ''delivery''] = idf training_tokens ''pizza'' * sqrt 2"
proof -
  let ?D = training_tokens
  let ?x = "[''pizza'', ''delivery'']"
  let ?g = "idf ?D ''pizza''"
  have g: "0 \<le> ?g" using idf_ge_1 [of ?D "''pizza''"] by linarith
  have "(\<Sum>t\<leftarrow>vocabulary ?D. (weight ?D ?x t)\<^sup>2)
      = (weight ?D ?x ''pizza'')\<^sup>2 + (weight ?D ?x ''delivery'')\<^sup>2"
    by (rule sum_list_two_points)
      (simp_all add: distinct_vocabulary pizza_delivery_in_vocabulary weight_zero)
  also have "\<dots> = ?g\<^sup>2 * 2"
    by (simp add: weight_pizza_delivery idf_pizza_delivery)
  finally have "l2_norm ?D ?x = sqrt (?g\<^sup>2 * 2)"
    by (simp add: l2_norm_def)
  also have "\<dots> = ?g * sqrt 2"
    using g by (simp add: real_sqrt_mult)
  finally show ?thesis .
qed

lemma tfidf_pizza_delivery:
  "tfidf training_tokens [''pizza'', ''delivery''] ''pizza'' = 1 / sqrt 2"
  "tfidf training_tokens [''pizza'', ''delivery''] ''delivery'' = 1 / sqrt 2"
proof -
  have g: "0 < idf training_tokens ''pizza''"
    using idf_ge_1 [of training_tokens "''pizza''"] by linarith
  then have n: "l2_norm training_tokens [''pizza'', ''delivery''] \<noteq> 0"
    by (simp add: l2_norm_pizza_delivery)
  show "tfidf training_tokens [''pizza'', ''delivery''] ''pizza'' = 1 / sqrt 2"
    using g n by (simp add: tfidf_def weight_pizza_delivery l2_norm_pizza_delivery)
  show "tfidf training_tokens [''pizza'', ''delivery''] ''delivery'' = 1 / sqrt 2"
    using g n
    by (simp add: tfidf_def weight_pizza_delivery l2_norm_pizza_delivery idf_pizza_delivery)
qed

lemma sum_row_sum_le: "(\<Sum>d\<leftarrow>ds. row_sum D d) \<le> real (length (concat ds))"
proof (induction ds)
  case Nil
  then show ?case by simp
next
  case (Cons d ds)
  with row_sum_le_length [of D d] show ?case by simp
qed

lemma sum_row_sum_nonneg: "0 \<le> (\<Sum>d\<leftarrow>ds. row_sum D d)"
  by (rule sum_list_nonneg) (auto simp add: row_sum_nonneg)

lemma smoothed_total_bounds:
  "real (length (vocabulary D)) \<le> smoothed_total D y c"
  "smoothed_total D y c
     \<le> real (length (vocabulary D)) + real (length (concat (class_docs D y c)))"
  using sum_row_sum_le [of D "class_docs D y c"] sum_row_sum_nonneg [of D "class_docs D y c"]
  by (simp_all add: smoothed_total_eq)

text \<open>What is needed of each class of the bundled examples.\<close>

lemma class_facts:
  assumes "c \<in> set (classes training_labels)"
  shows "41 \<le> smoothed_total training_tokens training_labels c"
    and "smoothed_total training_tokens training_labels c \<le> 49"
    and "1 \<le> length (class_docs training_tokens training_labels c)"
    and "length (class_docs training_tokens training_labels c) \<le> 4"
    and "c \<noteq> ''Food & Dining'' \<Longrightarrow>
           feature_count training_tokens training_labels c ''pizza'' = 0
           \<and> feature_count training_tokens training_labels c ''delivery'' = 0"
proof -
  from assms have c: "c \<in> set [''Bills & Utilities'', ''Education'', ''Entertainment'',
      ''Food & Dining'', ''Healthcare'', ''Home & Garden'', ''Personal Care'', ''Shopping'',
      ''Transportation'', ''Travel'']"
    by (simp only: classes_training_labels)
  have len: "length (concat (class_docs training_tokens training_labels c)) \<le> 8"
    and n1: "1 \<le> length (class_docs training_tokens training_labels c)"
    and n4: "length (class_docs training_tokens training_labels c) \<le> 4"
    using c by (auto simp add: class_docs_training)
  show "41 \<le> smoothed_total training_tokens training_labels c"
    using smoothed_total_bounds(1) [of training_tokens training_labels c]
    by (simp add: length_vocabulary)
  show "smoothed_total training_tokens training_labels c \<le> 49"
    using smoothed_total_bounds(2) [of training_tokens training_labels c] len
    by (simp add: length_vocabulary)
  show "1 \<le> length (class_docs training_tokens training_labels c)" by (rule n1)
  show "length (class_docs training_tokens training_labels c) \<le> 4" by (rule n4)
  show "feature_count training_tokens training_labels c ''pizza'' = 0
      \<and> feature_count training_tokens training_labels c ''delivery'' = 0"
    if "c \<noteq> ''Food & Dining''"
  proof -
    have "\<And>d. d \<in> set (class_docs training_tokens training_labels c)
        \<Longrightarrow> ''pizza'' \<notin> set d \<and> ''delivery'' \<notin> set d"
      using c that by (auto simp add: class_docs_training)
    then show ?thesis by (simp add: feature_count_zero)
  qed
qed

lemma food_facts:
  "45 \<le> smoothed_total training_tokens training_labels ''Food & Dining''"
  "length (class_docs training_tokens training_labels ''Food & Dining'') = 4"
  "feature_count training_tokens training_labels ''Food & Dining'' ''pizza'' = 1 / sqrt 2"
  "feature_count training_tokens training_labels ''Food & Dining'' ''delivery'' = 1 / sqrt 2"
proof -
  let ?D = training_tokens
  have v: "''pizza'' \<in> set (vocabulary ?D)" "''grocery'' \<in> set (vocabulary ?D)"
    "''restaurant'' \<in> set (vocabulary ?D)" "''coffee'' \<in> set (vocabulary ?D)"
    by (simp_all add: set_vocabulary training_tokens_def)
  have "1 \<le> row_sum ?D [''pizza'', ''delivery'']" by (rule row_sum_ge_1 [OF _ v(1)]) simp
  moreover have "1 \<le> row_sum ?D [''grocery'', ''store'']" by (rule row_sum_ge_1 [OF _ v(2)]) simp
  moreover have "1 \<le> row_sum ?D [''restaurant'']" by (rule row_sum_ge_1 [OF _ v(3)]) simp
  moreover have "1 \<le> row_sum ?D [''coffee'', ''shop'']" by (rule row_sum_ge_1 [OF _ v(4)]) simp
  ultimately show "45 \<le> smoothed_total ?D training_labels ''Food & Dining''"
    by (simp add: smoothed_total_eq class_docs_training length_vocabulary)
  show "length (class_docs ?D training_labels ''Food & Dining'') = 4"
    by (simp add: class_docs_training)
  show "feature_count ?D training_labels ''Food & Dining'' ''pizza'' = 1 / sqrt 2"
    by (simp add: feature_count_def class_docs_training tfidf_pizza_delivery tfidf_zero)
  show "feature_count ?D training_labels ''Food & Dining'' ''delivery'' = 1 / sqrt 2"
    by (simp add: feature_count_def class_docs_training tfidf_pizza_delivery tfidf_zero)
qed

subsection \<open>The arithmetic\<close>

lemma sqrt2_bounds:
  "sqrt 2 \<le> 3 / 2" "7 / 10 \<le> 1 / sqrt 2" "1 / sqrt 2 \<le> 71 / 100" "2 * (1 / sqrt 2) = sqrt 2"
proof -
  show "sqrt 2 \<le> 3 / 2"
    by (rule real_le_lsqrt) (simp_all add: power2_eq_square)
  have lo: "100 / 71 \<le> sqrt 2"
    by (rule real_le_rsqrt) (simp add: power2_eq_square)
  have hi: "sqrt 2 \<le> 10 / 7"
    by (rule real_le_lsqrt) (simp_all add: power2_eq_square)
  have pos: "0 < sqrt 2" by simp
  show "7 / 10 \<le> 1 / sqrt 2"
    using hi pos by (simp add: le_divide_eq)
  show "1 / sqrt 2 \<le> 71 / 100"
    using lo pos by (simp add: divide_le_eq)
  show "2 * (1 / sqrt 2) = sqrt 2"
    using real_div_sqrt [of 2] by simp
qed

lemma nb_gap:
  fixes TF Tc h :: real
  assumes "45 \<le> TF" and "TF \<le> 49" and "41 \<le> Tc" and "Tc \<le> 49"
    and "7 / 10 \<le> h" and "h \<le> 71 / 100"
  shows "ln TF - ln Tc - ln (1 + h) \<le> 0"
    and "ln (7 / 18) \<le> sqrt 2 * (ln TF - ln Tc - ln (1 + h))"
proof -
  define r where "r = TF / (Tc * (1 + h))"
  define r0 :: real where "r0 = 45 / (49 * (171 / 100))"
  have pos: "0 < TF" "0 < Tc" "0 < 1 + h" using assms by simp_all
  then have den: "0 < Tc * (1 + h)" by simp
  have L: "ln TF - ln Tc - ln (1 + h) = ln r"
    using pos by (simp add: r_def ln_div ln_mult)
  have rpos: "0 < r" using pos den by (simp add: r_def)
  have "41 * (17 / 10) \<le> Tc * (1 + h)"
    by (rule mult_mono) (use assms in simp_all)
  with assms(2) have "TF \<le> Tc * (1 + h)" by simp
  with den have r1: "r \<le> 1" by (simp add: r_def divide_le_eq)
  have "Tc * (1 + h) \<le> 49 * (171 / 100)"
    by (rule mult_mono) (use assms in simp_all)
  with assms(1) den have r0r: "r0 \<le> r"
    unfolding r0_def r_def by (intro frac_le) simp_all
  have r0pos: "0 < r0" by (simp add: r0_def)
  have lnr: "ln r \<le> 0" using rpos r1 by simp
  show "ln TF - ln Tc - ln (1 + h) \<le> 0" using L lnr by simp
  have "(7 / 18 :: real)\<^sup>2 \<le> r0 ^ 3"
    by (simp add: r0_def power2_eq_square power3_eq_cube)
  then have "ln ((7 / 18 :: real)\<^sup>2) \<le> ln (r0 ^ 3)"
    by (subst ln_le_cancel_iff) (simp_all add: r0pos)
  then have "2 * ln (7 / 18 :: real) \<le> 3 * ln r0"
    using r0pos by (simp add: ln_realpow)
  moreover have "ln r0 \<le> ln r" using r0pos r0r by simp
  ultimately have a: "ln (7 / 18 :: real) \<le> 3 / 2 * ln r" by simp
  have "3 / 2 * ln r \<le> sqrt 2 * ln r"
    using sqrt2_bounds(1) lnr by (rule mult_right_mono_neg)
  with a L show "ln (7 / 18) \<le> sqrt 2 * (ln TF - ln Tc - ln (1 + h))" by simp
qed

subsection \<open>The class probabilities of 'pizza delivery' and of the empty text\<close>

lemma jll_pizza_delivery:
  "joint_log_likelihood training_tokens y [''pizza'', ''delivery''] c =
     class_log_prior training_tokens y c
     + 1 / sqrt 2 * (feature_log_prob training_tokens y c ''pizza''
                     + feature_log_prob training_tokens y c ''delivery'')"
proof -
  let ?D = training_tokens
  let ?x = "[''pizza'', ''delivery'']"
  have "(\<Sum>t\<leftarrow>vocabulary ?D. tfidf ?D ?x t * feature_log_prob ?D y c t)
      = tfidf ?D ?x ''pizza'' * feature_log_prob ?D y c ''pizza''
        + tfidf ?D ?x ''delivery'' * feature_log_prob ?D y c ''delivery''"
    by (rule sum_list_two_points)
      (simp_all add: distinct_vocabulary pizza_delivery_in_vocabulary tfidf_zero)
  then show ?thesis
    by (simp add: joint_log_likelihood_def tfidf_pizza_delivery algebra_simps)
qed

lemma sqrt2_half_twice: "1 / sqrt 2 * (z + z) = sqrt 2 * (z::real)"
proof -
  have "1 / sqrt 2 * (z + z) = 2 * (1 / sqrt 2) * z" by simp
  also have "\<dots> = sqrt 2 * z" by (simp only: sqrt2_bounds(4))
  finally show ?thesis .
qed

lemma jll_food:
  "joint_log_likelihood training_tokens training_labels [''pizza'', ''delivery''] ''Food & Dining''
     = ln (1 / 7) + sqrt 2 * (ln (1 + 1 / sqrt 2)
         - ln (smoothed_total training_tokens training_labels ''Food & Dining''))"
proof -
  let ?T = "smoothed_total training_tokens training_labels ''Food & Dining''"
  have "feature_log_prob training_tokens training_labels ''Food & Dining'' ''pizza''
      = ln (1 + 1 / sqrt 2) - ln ?T"
    and "feature_log_prob training_tokens training_labels ''Food & Dining'' ''delivery''
      = ln (1 + 1 / sqrt 2) - ln ?T"
    by (simp_all add: feature_log_prob_def food_facts add.commute)
  moreover have "class_log_prior training_tokens training_labels ''Food & Dining'' = ln (1 / 7)"
    by (simp add: class_log_prior_def food_facts length_training_labels)
  ultimately show ?thesis
    by (simp only: jll_pizza_delivery sqrt2_half_twice)
qed

lemma jll_other:
  assumes "c \<in> set (classes training_labels)" and "c \<noteq> ''Food & Dining''"
  shows "joint_log_likelihood training_tokens training_labels [''pizza'', ''delivery''] c
     = ln (real (length (class_docs training_tokens training_labels c)) / 28)
       + sqrt 2 * (- ln (smoothed_total training_tokens training_labels c))"
proof -
  let ?T = "smoothed_total training_tokens training_labels c"
  have "feature_log_prob training_tokens training_labels c ''pizza'' = - ln ?T"
    and "feature_log_prob training_tokens training_labels c ''delivery'' = - ln ?T"
    using class_facts(5) [OF assms] by (simp_all add: feature_log_prob_def)
  moreover have "class_log_prior training_tokens training_labels c
      = ln (real (length (class_docs training_tokens training_labels c)) / 28)"
    by (simp add: class_log_prior_def length_training_labels)
  ultimately show ?thesis
    by (simp only: jll_pizza_delivery sqrt2_half_twice)
qed

lemma likelihood_compare:
  fixes n q B eF ec :: real
  assumes n: "1 \<le> n" "n \<le> 4" and q1: "q \<le> 1" and q0: "7 / 18 \<le> q" and Bpos: "0 < B"
    and eF: "eF = 1 / 7 * B" and ec: "ec = n / 28 * (B * q)"
  shows "ec \<le> eF" and "eF * (n * 7 / 72) \<le> ec"
proof -
  have "n * q \<le> 4 * 1"
    by (rule mult_mono) (use n q1 q0 in simp_all)
  then have "n / 28 * q \<le> 1 / 7" by linarith
  then have "n / 28 * q * B \<le> 1 / 7 * B"
    using Bpos by (simp only: mult_le_cancel_right_pos)
  then show "ec \<le> eF"
    by (simp only: ec eF mult.assoc mult.commute [of B q])
  have "n * (7 / 18) \<le> n * q"
    by (rule mult_left_mono) (use n q0 in simp_all)
  then have "1 / 7 * (n * 7 / 72) \<le> n / 28 * q" by linarith
  then have "1 / 7 * (n * 7 / 72) * B \<le> n / 28 * q * B"
    using Bpos by (simp only: mult_le_cancel_right_pos)
  then show "eF * (n * 7 / 72) \<le> ec"
    by (simp only: ec eF mult.assoc mult.commute [of B] mult.left_commute [of B])
qed

lemma exp_jll_other:
  assumes "c \<in> set (classes training_labels)" and "c \<noteq> ''Food & Dining''"
  defines "e \<equiv> \<lambda>c. exp (joint_log_likelihood training_tokens training_labels
    [''pizza'', ''delivery''] c)"
  shows "e c \<le> e ''Food & Dining''"
    and "e ''Food & Dining''
           * (real (length (class_docs training_tokens training_labels c)) * 7 / 72) \<le> e c"
proof -
  let ?n = "real (length (class_docs training_tokens training_labels c))"
  let ?Tc = "smoothed_total training_tokens training_labels c"
  let ?TF = "smoothed_total training_tokens training_labels ''Food & Dining''"
  let ?L = "ln ?TF - ln ?Tc - ln (1 + 1 / sqrt 2)"
  define B where "B = exp (sqrt 2 * (ln (1 + 1 / sqrt 2) - ln ?TF))"
  define q where "q = exp (sqrt 2 * ?L)"
  have food: "''Food & Dining'' \<in> set (classes training_labels)"
    by (simp add: classes_training_labels)
  have n: "1 \<le> ?n" "?n \<le> 4"
    using class_facts(3,4) [OF assms(1)] by simp_all
  have gap: "?L \<le> 0" "ln (7 / 18) \<le> sqrt 2 * ?L"
    by (rule nb_gap [OF food_facts(1) class_facts(2) [OF food] class_facts(1,2) [OF assms(1)]
          sqrt2_bounds(2,3)])+
  have Bpos: "0 < B" by (simp add: B_def)
  have "sqrt 2 * ?L \<le> 0"
    using gap(1) by (simp add: mult_nonneg_nonpos)
  then have q1: "q \<le> 1" by (simp add: q_def)
  have "exp (ln (7 / 18 :: real)) \<le> q"
    unfolding q_def using gap(2) by (simp only: exp_le_cancel_iff)
  then have q0: "7 / 18 \<le> q" by simp
  have eF: "e ''Food & Dining'' = 1 / 7 * B"
    by (simp add: e_def jll_food exp_add B_def)
  have "sqrt 2 * (- ln ?Tc) = sqrt 2 * (ln (1 + 1 / sqrt 2) - ln ?TF) + sqrt 2 * ?L"
    by (simp add: algebra_simps)
  then have "exp (sqrt 2 * (- ln ?Tc)) = B * q"
    by (simp only: B_def q_def exp_add)
  moreover have "exp (ln (?n / 28)) = ?n / 28"
  proof (rule exp_ln)
    have "0 < ?n" using n(1) by linarith
    then show "0 < ?n / 28" by simp
  qed
  ultimately have ec: "e c = ?n / 28 * (B * q)"
    by (simp only: e_def jll_other [OF assms(1,2)] exp_add)
  show "e c \<le> e ''Food & Dining''"
    by (rule likelihood_compare(1) [OF n q1 q0 Bpos eF ec])
  show "e ''Food & Dining'' * (?n * 7 / 72) \<le> e c"
    by (rule likelihood_compare(2) [OF n q1 q0 Bpos eF ec])
qed

lemma fold_max_le: "(q::real) \<le> b \<Longrightarrow> (\<And>x. x \<in> set qs \<Longrightarrow> x \<le> b) \<Longrightarrow> fold max qs q \<le> b"
  by (induction qs arbitrary: q) simp_all

lemma class_proba_pizza_delivery:
  assumes "p \<in> set (class_proba training_tokens training_labels [''pizza'', ''delivery''])"
  shows "p \<le> 3 / 10"
proof -
  define e where "e = (\<lambda>c. exp (joint_log_likelihood training_tokens training_labels
    [''pizza'', ''delivery''] c))"
  define S where "S = (\<Sum>c\<leftarrow>classes training_labels. e c)"
  let ?F = "''Food & Dining''"
  have epos: "0 < e c" for c by (simp add: e_def)
  have le: "e c \<le> e ?F" if "c \<in> set (classes training_labels)" for c
  proof (cases "c = ?F")
    case True
    then show ?thesis by simp
  next
    case False
    from exp_jll_other(1) [OF that False] show ?thesis by (simp add: e_def)
  qed
  have lower: "e ?F * (real (length (class_docs training_tokens training_labels c)) * 7 / 72)
      \<le> e c" if "c \<in> set (classes training_labels)" and "c \<noteq> ?F" for c
    using exp_jll_other(2) [OF that] by (simp add: e_def)
  have "e ?F * (3 * 7 / 72) \<le> e ''Bills & Utilities''"
    and "e ?F * (2 * 7 / 72) \<le> e ''Education''"
    and "e ?F * (3 * 7 / 72) \<le> e ''Entertainment''"
    and "e ?F * (3 * 7 / 72) \<le> e ''Healthcare''"
    and "e ?F * (2 * 7 / 72) \<le> e ''Home & Garden''"
    and "e ?F * (2 * 7 / 72) \<le> e ''Personal Care''"
    and "e ?F * (3 * 7 / 72) \<le> e ''Shopping''"
    and "e ?F * (4 * 7 / 72) \<le> e ''Transportation''"
    and "e ?F * (2 * 7 / 72) \<le> e ''Travel''"
    using lower [of "''Bills & Utilities''"] lower [of "''Education''"]
      lower [of "''Entertainment''"] lower [of "''Healthcare''"] lower [of "''Home & Garden''"]
      lower [of "''Personal Care''"] lower [of "''Shopping''"] lower [of "''Transportation''"]
      lower [of "''Travel''"]
    by (simp_all add: classes_training_labels class_docs_training)
  then have S: "e ?F * (10 / 3) \<le> S"
    by (simp add: S_def classes_training_labels)
  have "0 < e ?F * (10 / 3)" using epos [of ?F] by simp
  with S have Spos: "0 < S" by linarith
  from assms obtain c where c: "c \<in> set (classes training_labels)" and p: "p = e c / S"
    by (auto simp add: class_proba_def e_def S_def)
  have "e c \<le> e ?F" by (rule le [OF c])
  also have "\<dots> \<le> 3 / 10 * S" using S by simp
  finally show ?thesis using Spos by (simp add: p divide_le_eq)
qed

lemma jll_empty: "joint_log_likelihood D y [] c = class_log_prior D y c"
  by (simp add: joint_log_likelihood_def tfidf_zero)

lemma class_proba_empty:
  assumes "p \<in> set (class_proba training_tokens training_labels [])"
  shows "p \<le> 3 / 10"
  using assms
  by (auto simp add: class_proba_def jll_empty class_log_prior_def classes_training_labels
      class_docs_training length_training_labels)

lemma class_proba_nonempty:
  "\<exists>q qs. class_proba training_tokens training_labels d = q # qs"
  by (simp add: class_proba_def classes_training_labels)

lemma create_initial_model_sklearn:
  "truth_value (create_initial_model (sklearn_fit stop_words_in_examples ua))"
  "\<exists>p. predict (create_initial_model (sklearn_fit stop_words_in_examples ua)) [doc] = Inr [p]"
  "predict_proba (create_initial_model (sklearn_fit stop_words_in_examples ua)) [doc]
     = Inr [class_proba training_tokens training_labels (analyze stop_words_in_examples ua doc)]"
proof -
  have D: "map (analyze stop_words_in_examples ua \<circ> fst) training_data = training_tokens"
    using analyze_training_data [of ua] by simp
  show "truth_value (create_initial_model (sklearn_fit stop_words_in_examples ua))"
    by (simp add: create_initial_model_def sklearn_fit_def)
  show "\<exists>p. predict (create_initial_model (sklearn_fit stop_words_in_examples ua)) [doc] = Inr [p]"
    by (simp add: create_initial_model_def sklearn_fit_def training_labels_def [symmetric]
        classes_training_labels)
  show "predict_proba (create_initial_model (sklearn_fit stop_words_in_examples ua)) [doc]
     = Inr [class_proba training_tokens training_labels (analyze stop_words_in_examples ua doc)]"
    by (simp add: create_initial_model_def sklearn_fit_def training_labels_def [symmetric] D)
qed

lemma lower_examples:
  "lower ul ''pizza delivery'' = ''pizza delivery''" "lower ul [] = []"
  by (simp_all add: lower_def ascii_simps lower_char_def)

lemma analyze_examples:
  "analyze stop_words_in_examples ua ''pizza delivery'' = [''pizza'', ''delivery'']"
  "analyze stop_words_in_examples ua [] = []"
  by (simp_all add: analyze_def ascii_simps stop_words_in_examples_def tokenize_def lower_char_def
      word_char_def)

lemma categorize_low_confidence:
  assumes "truth_value md" and "predict md [lower ul s] = Inr [p]"
    and "predict_proba md [lower ul s] = Inr [probs]"
    and "probs \<noteq> []" and "\<And>x. x \<in> set probs \<Longrightarrow> x \<le> 3 / 10"
  shows "categorize ul (Some md) (Some s) = Inr ''Miscellaneous''"
proof -
  from assms(4) obtain q qs where probs: "probs = q # qs" by (cases probs) auto
  with assms(5) have "fold max qs q \<le> 3 / 10"
    by (intro fold_max_le) simp_all
  then have "\<not> 0.3 < fold max qs q" by simp
  with categorize_threshold [OF assms(1), of ul s p "[]" q qs "[]"] assms(2,3) probs
  show ?thesis by simp
qed

lemma categorize_sklearn_pizza_delivery:
  "categorize ul (Some (create_initial_model (sklearn_fit stop_words_in_examples ua)))
     (Some ''pizza delivery'') = Inr ''Miscellaneous''"
proof -
  let ?md = "create_initial_model (sklearn_fit stop_words_in_examples ua)"
  let ?probs = "class_proba training_tokens training_labels [''pizza'', ''delivery'']"
  from create_initial_model_sklearn(2) [of ua "''pizza delivery''"]
  obtain p where p: "predict ?md [lower ul ''pizza delivery''] = Inr [p]"
    by (auto simp add: lower_examples)
  have pp: "predict_proba ?md [lower ul ''pizza delivery''] = Inr [?probs]"
    by (simp add: lower_examples create_initial_model_sklearn(3) analyze_examples)
  have ne: "?probs \<noteq> []"
    using class_proba_nonempty [of "[''pizza'', ''delivery'']"] by auto
  show ?thesis
    by (rule categorize_low_confidence [OF create_initial_model_sklearn(1) p pp ne])
      (rule class_proba_pizza_delivery)
qed

lemma categorize_sklearn_empty:
  "categorize ul (Some (create_initial_model (sklearn_fit stop_words_in_examples ua)))
     (Some []) = Inr ''Miscellaneous''"
proof -
  let ?md = "create_initial_model (sklearn_fit stop_words_in_examples ua)"
  let ?probs = "class_proba training_tokens training_labels []"
  from create_initial_model_sklearn(2) [of ua "[]"]
  obtain p where p: "predict ?md [lower ul []] = Inr [p]"
    by (auto simp add: lower_examples)
  have pp: "predict_proba ?md [lower ul []] = Inr [?probs]"
    by (simp add: lower_examples create_initial_model_sklearn(3) analyze_examples)
  have ne: "?probs \<noteq> []"
    using class_proba_nonempty [of "[]"] by auto
  show ?thesis
    by (rule categorize_low_confidence [OF create_initial_model_sklearn(1) p pp ne])
      (rule class_proba_empty)
qed

section \<open>The claims\<close>

text \<open>
  C1. The claim: setBudget inserts or replaces the budget row of its category, so that after
  two calls for one category exactly one budget row exists for it. The handler
  \<open>set_budget\<close> reports "Budget set" both times and writes nothing: in a freshly initialised
  store the budgets table is still empty after the two calls, so no row exists for the
  category.
\<close>

theorem set_budget_stores_no_row:
  "snd after_first_budget = ShowInfo_budget_set ''Food & Dining'' 500
   \<and> snd after_second_budget = ShowInfo_budget_set ''Food & Dining'' 750
   \<and> budgets (gui_db (fst after_second_budget)) = Some \<lparr>rows = [], seq = 0\<rparr>
   \<and> filter (\<lambda>b. budget_category b = ''Food & Dining'')
        (budget_rows (gui_db (fst after_second_budget))) = []"
proof -
  have m1: "snd after_first_budget = ShowInfo_budget_set ''Food & Dining'' 500"
    by (simp add: after_first_budget_def set_budget_def enter_budget_def example_float_def)
  have m2: "snd after_second_budget = ShowInfo_budget_set ''Food & Dining'' 750"
    by (simp add: after_second_budget_def set_budget_def enter_budget_def example_float_def)
  have "gui_db (fst after_second_budget) = gui_db fresh_gui"
    by (simp add: after_second_budget_def after_first_budget_def set_budget_gui_db
        enter_budget_def)
  then have b: "budgets (gui_db (fst after_second_budget)) = Some \<lparr>rows = [], seq = 0\<rparr>"
    by (simp add: fresh_gui_def init_database_def no_tables_def create_table_if_not_exists_def)
  from m1 m2 b show ?thesis by (simp add: budget_rows_def)
qed

text \<open>
  C2, as stated: calling addIncome(date, amount, source) appends a new income record. The
  store has no such operation. A call \<open>db.add_income(...)\<close> first looks the name up on the
  store, and that lookup raises AttributeError, under the Python name and under the spec's.
\<close>

theorem add_income_not_defined:
  "getattr_FinanceDatabase ''add_income'' = Some (Inl AttributeError)
   \<and> getattr_FinanceDatabase ''addIncome'' = Some (Inl AttributeError)"
  by (simp add: getattr_FinanceDatabase_def FinanceDatabase_attributes_def)

text \<open>
  C2, amended: the store creates the income table (identifier, date, amount, source, creation
  timestamp), empty when it did not exist, and nothing writes to it: the lookup of
  \<open>add_income\<close> on the store raises AttributeError, and the two operations that change the
  store, \<open>init_database\<close> and \<open>add_expense\<close>, leave the income records as they were.
\<close>

theorem income_rows_never_written:
  "income (init_database db) \<noteq> None
   \<and> (income db = None \<longrightarrow> income (init_database db) = Some \<lparr>rows = [], seq = 0\<rparr>)
   \<and> income_rows (init_database db) = income_rows db
   \<and> (\<forall>db'. add_expense db now d a ds c pm = Inr db' \<longrightarrow> income db' = income db)
   \<and> getattr_FinanceDatabase ''add_income'' = Some (Inl AttributeError)"
proof -
  have "income (init_database db) \<noteq> None"
    by (simp add: init_database_def create_table_if_not_exists_def split: option.splits)
  moreover have "income db = None \<longrightarrow> income (init_database db) = Some \<lparr>rows = [], seq = 0\<rparr>"
    by (simp add: init_database_def create_table_if_not_exists_def)
  moreover have "income_rows (init_database db) = income_rows db"
    by (simp add: income_rows_def init_database_def create_table_if_not_exists_def
        split: option.splits)
  moreover have "income db' = income db"
    if "add_expense db now d a ds c pm = Inr db'" for db'
    using that by (auto simp add: add_expense_def split: option.splits if_splits)
  moreover have "getattr_FinanceDatabase ''add_income'' = Some (Inl AttributeError)"
    by (simp add: getattr_FinanceDatabase_def FinanceDatabase_attributes_def)
  ultimately show ?thesis by blast
qed

theorem income_rows_never_written_witness:
  "income no_tables = None
   \<and> income (init_database no_tables) = Some \<lparr>rows = [], seq = 0\<rparr>
   \<and> add_expense example_db ''2024-04-03 10:00:00'' (Some ''2024-04-03'') (Some 3)
       (Some ''bus ticket'') (Some ''Transportation'') (Some ''Cash'')
     = Inr (example_db\<lparr>expenses := Some
         (example_table\<lparr>rows := example_rows @
            [\<lparr>expense_id = 4, date = ''2024-04-03'', amount = 3, description = ''bus ticket'',
              category = ''Transportation'', payment_method = Some ''Cash'',
              created_at = ''2024-04-03 10:00:00''\<rparr>],
            seq := 4\<rparr>)\<rparr>)
   \<and> income (example_db\<lparr>expenses := Some
         (example_table\<lparr>rows := example_rows @
            [\<lparr>expense_id = 4, date = ''2024-04-03'', amount = 3, description = ''bus ticket'',
              category = ''Transportation'', payment_method = Some ''Cash'',
              created_at = ''2024-04-03 10:00:00''\<rparr>],
            seq := 4\<rparr>)\<rparr>) = income example_db
   \<and> income_rows example_db = []"
proof -
  have none: "income no_tables = None"
    by (simp add: no_tables_def)
  have add: "add_expense example_db ''2024-04-03 10:00:00'' (Some ''2024-04-03'') (Some 3)
       (Some ''bus ticket'') (Some ''Transportation'') (Some ''Cash'')
     = Inr (example_db\<lparr>expenses := Some
         (example_table\<lparr>rows := example_rows @
            [\<lparr>expense_id = 4, date = ''2024-04-03'', amount = 3, description = ''bus ticket'',
              category = ''Transportation'', payment_method = Some ''Cash'',
              created_at = ''2024-04-03 10:00:00''\<rparr>],
            seq := 4\<rparr>)\<rparr>)"
    by (simp add: add_expense_def example_db_def example_table_def example_rows_def
        example_row1_def example_row2_def example_row3_def largest_rowid_def max_rowid_def)
  have rows: "income_rows example_db = []"
    by (simp add: income_rows_def example_db_def)
  from income_rows_never_written [of no_tables]
    income_rows_never_written
      [of example_db "''2024-04-03 10:00:00''" "Some ''2024-04-03''" "Some 3"
        "Some ''bus ticket''" "Some ''Transportation''" "Some ''Cash''"]
    none add rows
  show ?thesis by simp
qed

text \<open>
  C3. For every date, amount, description and category (none of them \<open>None\<close>; the amount
  need not even be positive), on a store whose expenses table exists and has a row id left:
  \<open>add_expense\<close> succeeds, and \<open>get_expenses\<close> with bounds that cover the date (each bound
  absent or on the right side of the date in the store's text order) then returns a record
  with exactly these four fields, one record more than before, and otherwise the records
  it returned before.
\<close>

theorem add_expense_then_get_expenses:
  assumes tbl: "expenses db = Some t"
    and room: "largest_rowid t < max_rowid"
    and lo: "case start_date of None \<Rightarrow> True | Some s \<Rightarrow> s \<le> d"
    and hi: "case end_date of None \<Rightarrow> True | Some e \<Rightarrow> d \<le> e"
  shows "\<exists>db' before after r.
           add_expense db now (Some d) (Some a) (Some ds) (Some c) pm = Inr db'
         \<and> get_expenses db start_date end_date = Inr before
         \<and> get_expenses db' start_date end_date = Inr after
         \<and> length after = length before + 1
         \<and> r \<in> set after
         \<and> date r = d \<and> amount r = a \<and> description r = ds \<and> category r = c
         \<and> mset after = add_mset r (mset before)"
proof -
  define new where "new = \<lparr>expense_id = largest_rowid t + 1, date = d, amount = a,
    description = ds, category = c, payment_method = pm, created_at = now\<rparr>"
  define t' where "t' = t\<lparr>rows := rows t @ [new], seq := largest_rowid t + 1\<rparr>"
  define db' where "db' = db\<lparr>expenses := Some t'\<rparr>"
  have add: "add_expense db now (Some d) (Some a) (Some ds) (Some c) pm = Inr db'"
    using tbl room by (simp add: add_expense_def db'_def t'_def new_def)
  have m: "selected start_date end_date (rows t @ [new])
      = selected start_date end_date (rows t) @ [new]"
    using lo hi
    by (auto simp add: selected_def truthy_def between_def new_def split: option.splits)
  have before: "get_expenses db start_date end_date
      = Inr (order_by_date_desc (selected start_date end_date (rows t)))"
    using tbl by (rule get_expenses_selected)
  have "expenses db' = Some t'" by (simp add: db'_def)
  then have after: "get_expenses db' start_date end_date =
      Inr (order_by_date_desc (selected start_date end_date (rows t) @ [new]))"
    using m by (simp add: get_expenses_selected t'_def)
  have fields: "date new = d \<and> amount new = a \<and> description new = ds \<and> category new = c"
    by (simp add: new_def)
  show ?thesis
    using add before after fields
    by (simp add: length_order_by_date_desc mset_order_by_date_desc set_order_by_date_desc)
qed

theorem add_expense_then_get_expenses_witness:
  "expenses example_db = Some example_table
   \<and> largest_rowid example_table < max_rowid
   \<and> ''2024-03-01'' \<le> ''2024-03-20'' \<and> ''2024-03-20'' \<le> ''2024-03-31''
   \<and> (\<exists>db' before after r.
         add_expense example_db ''2024-03-20 18:00:00'' (Some ''2024-03-20'') (Some (999 / 100))
           (Some ''movie tickets'') (Some ''Entertainment'') (Some ''Cash'') = Inr db'
       \<and> get_expenses example_db (Some ''2024-03-01'') (Some ''2024-03-31'') = Inr before
       \<and> get_expenses db' (Some ''2024-03-01'') (Some ''2024-03-31'') = Inr after
       \<and> length after = length before + 1
       \<and> r \<in> set after
       \<and> date r = ''2024-03-20'' \<and> amount r = 999 / 100
       \<and> description r = ''movie tickets'' \<and> category r = ''Entertainment''
       \<and> mset after = add_mset r (mset before))"
proof -
  have h1: "expenses example_db = Some example_table"
    by (simp add: example_db_def)
  have h2: "largest_rowid example_table < max_rowid"
    by (simp add: largest_rowid_def example_table_def example_rows_def example_row1_def
        example_row2_def example_row3_def max_rowid_def)
  have h3: "case Some ''2024-03-01'' of None \<Rightarrow> True | Some s \<Rightarrow> s \<le> ''2024-03-20''"
    by simp
  have h4: "case Some ''2024-03-31'' of None \<Rightarrow> True | Some e \<Rightarrow> ''2024-03-20'' \<le> e"
    by simp
  from h3 have h3': "''2024-03-01'' \<le> ''2024-03-20''" by simp
  from h4 have h4': "''2024-03-20'' \<le> ''2024-03-31''" by simp
  from add_expense_then_get_expenses [OF h1 h2 h3 h4] h1 h2 h3' h4'
  show ?thesis by blast
qed

text \<open>
  C4, as stated: for every pair of bounds, no record returned by getExpenses(start, end) has
  a date after end. With the empty string as start bound (a cleared date field) the filter
  is skipped, and a record dated after the end bound comes back.
\<close>

theorem get_expenses_empty_start_counterexample:
  "get_expenses late_db (Some []) (Some ''2024-12-31'') = Inr [late_row]
   \<and> ''2024-12-31'' < date late_row"
  by (simp add: get_expenses_def late_db_def late_row_def truthy_def order_by_date_desc_def)

text \<open>
  C4, amended: for every store state and every pair of non-empty bounds, each record
  returned by \<open>get_expenses\<close> has its date within the closed interval from start to end (in
  the store's text order of dates), and both ends are inclusive: every stored record whose
  date lies in the interval, the two bounds included, is returned.
\<close>

theorem get_expenses_within_bounds:
  assumes "s \<noteq> []" and "e \<noteq> []" and "get_expenses db (Some s) (Some e) = Inr rs"
  shows "(\<forall>r \<in> set rs. s \<le> date r \<and> date r \<le> e)
         \<and> (\<forall>t r. expenses db = Some t \<longrightarrow> r \<in> set (rows t) \<longrightarrow> s \<le> date r \<longrightarrow> date r \<le> e
               \<longrightarrow> r \<in> set rs)"
proof -
  from assms(3) obtain t where t: "expenses db = Some t"
    by (auto simp add: get_expenses_def split: option.splits)
  with assms have rs: "rs = order_by_date_desc (filter (\<lambda>r. between (date r) s e) (rows t))"
    by (simp add: get_expenses_def truthy_def)
  show ?thesis
    using t by (auto simp add: rs set_order_by_date_desc between_def)
qed

theorem get_expenses_within_bounds_witness:
  "''2024-03-10'' \<noteq> [] \<and> ''2024-03-15'' \<noteq> []
   \<and> get_expenses example_db (Some ''2024-03-10'') (Some ''2024-03-15'')
       = Inr [example_row2, example_row1]
   \<and> ''2024-03-10'' \<le> date example_row1 \<and> date example_row1 \<le> ''2024-03-15''
   \<and> ''2024-03-10'' \<le> date example_row2 \<and> date example_row2 \<le> ''2024-03-15''"
proof -
  have h1: "''2024-03-10'' \<noteq> []" and h2: "''2024-03-15'' \<noteq> []"
    by simp_all
  have h3: "get_expenses example_db (Some ''2024-03-10'') (Some ''2024-03-15'')
      = Inr [example_row2, example_row1]"
    by (simp add: get_expenses_def example_db_def example_table_def example_rows_def
        example_row1_def example_row2_def example_row3_def truthy_def between_def
        order_by_date_desc_def)
  from get_expenses_within_bounds [OF h1 h2 h3] h3
  show ?thesis by simp
qed




text \<open>
  C6, as stated: with the trained model, categorize("pizza delivery") returns
  "Food & Dining". The pipeline fitted on the bundled examples gives no class a probability
  above 0.3 for that text, although it is one of the examples, so \<open>categorize\<close> falls back.
  (The two functions that stand for Python's and the library's handling of text beyond
  ASCII play no part: the text is ASCII.)
\<close>

theorem categorize_pizza_delivery_counterexample:
  "categorize id (Some (create_initial_model (sklearn_fit stop_words_in_examples tokenize)))
     (Some ''pizza delivery'') = Inr ''Miscellaneous''"
  by (rule categorize_sklearn_pizza_delivery)

text \<open>
  C6, amended: \<open>categorize\<close> hands the model the description in lower case, and of a model
  that answers it returns the predicted category when the largest class probability
  exceeds 0.3 and 'Miscellaneous' when it does not. With the model trained on the bundled
  examples, categorize("pizza delivery") and categorize("") both return 'Miscellaneous'.
\<close>

theorem categorize_threshold_rule:
  "(\<forall>md s p ps q qs pp.
      truth_value md \<longrightarrow> predict md [lower ul s] = Inr (p # ps) \<longrightarrow>
      predict_proba md [lower ul s] = Inr ((q # qs) # pp) \<longrightarrow>
      categorize ul (Some md) (Some s)
        = Inr (if fold max qs q > 0.3 then p else ''Miscellaneous''))
   \<and> categorize ul (Some (create_initial_model (sklearn_fit stop_words_in_examples ua)))
       (Some ''pizza delivery'') = Inr ''Miscellaneous''
   \<and> categorize ul (Some (create_initial_model (sklearn_fit stop_words_in_examples ua)))
       (Some []) = Inr ''Miscellaneous''"
  using categorize_threshold [of _ ul] categorize_sklearn_pizza_delivery [of ul ua]
    categorize_sklearn_empty [of ul ua]
  by blast

theorem categorize_threshold_rule_witness:
  "truth_value echo_model
   \<and> lower id ''Pizza Delivery'' = ''pizza delivery''
   \<and> predict echo_model [lower id ''Pizza Delivery''] = Inr [''pizza delivery'']
   \<and> predict_proba echo_model [lower id ''Pizza Delivery''] = Inr [[9 / 10, 1 / 10]]
   \<and> categorize id (Some echo_model) (Some ''Pizza Delivery'') = Inr ''pizza delivery''"
proof -
  have h1: "truth_value echo_model"
    by (simp add: echo_model_def)
  have l: "lower id ''Pizza Delivery'' = ''pizza delivery''"
    by (simp add: lower_def ascii_simps lower_char_def)
  have h2: "predict echo_model [lower id ''Pizza Delivery''] = Inr (''pizza delivery'' # [])"
    by (simp add: l echo_model_def)
  have h3: "predict_proba echo_model [lower id ''Pizza Delivery'']
      = Inr ((9 / 10 # [1 / 10]) # [])"
    by (simp add: echo_model_def)
  from categorize_threshold_rule [of id tokenize] h1 h2 h3
  have "categorize id (Some echo_model) (Some ''Pizza Delivery'')
      = Inr (if fold max [1 / 10] (9 / 10 :: real) > 0.3 then ''pizza delivery''
             else ''Miscellaneous'')"
    by blast
  then have "categorize id (Some echo_model) (Some ''Pizza Delivery'') = Inr ''pizza delivery''"
    by simp
  with h1 l h2 h3 show ?thesis by simp
qed

text \<open>
  C7. \<open>categorize\<close> returns a category for every model state and every description, string
  or not; whenever the body of its \<open>try\<close> raises, whatever the exception, the value returned
  is 'Miscellaneous'.
\<close>

theorem categorize_never_raises:
  "(\<exists>c. categorize ul m d = Inr c)
   \<and> (\<forall>e. categorize_try ul m d = Inl e \<longrightarrow> categorize ul m d = Inr ''Miscellaneous'')"
  by (auto simp add: categorize_def split: sum.splits option.splits)

theorem categorize_never_raises_witness:
  "categorize_try id (Some failing_model) (Some ''Pizza Delivery'') = Inl OtherError
   \<and> categorize id (Some failing_model) (Some ''Pizza Delivery'') = Inr ''Miscellaneous''
   \<and> categorize_try id (Some failing_model) None = Inl AttributeError
   \<and> categorize id (Some failing_model) None = Inr ''Miscellaneous''"
proof -
  have h1: "categorize_try id (Some failing_model) (Some ''Pizza Delivery'') = Inl OtherError"
    by (simp add: categorize_try_def failing_model_def)
  have h2: "categorize_try id (Some failing_model) None = Inl AttributeError"
    by (simp add: categorize_try_def failing_model_def)
  from categorize_never_raises [of id "Some failing_model" "Some ''Pizza Delivery''"]
    categorize_never_raises [of id "Some failing_model" None] h1 h2
  show ?thesis by blast
qed

text \<open>
  C8. \<open>init_database\<close> is idempotent: run once or many times in any state of the store, it
  leaves the three tables in existence, and a table that existed before keeps its rows and
  its key counter as they were.
\<close>

theorem init_database_idempotent:
  "(init_database ^^ Suc n) db = init_database db
   \<and> expenses (init_database db) \<noteq> None
   \<and> budgets (init_database db) \<noteq> None
   \<and> income (init_database db) \<noteq> None
   \<and> (\<forall>t. expenses db = Some t \<longrightarrow> expenses (init_database db) = Some t)
   \<and> (\<forall>t. budgets db = Some t \<longrightarrow> budgets (init_database db) = Some t)
   \<and> (\<forall>t. income db = Some t \<longrightarrow> income (init_database db) = Some t)"
  using init_database_funpow [of n db]
  by (auto simp add: init_database_def create_table_if_not_exists_def split: option.splits)

theorem init_database_idempotent_witness:
  "(init_database ^^ Suc 2) example_db = init_database example_db
   \<and> expenses example_db = Some example_table
   \<and> expenses (init_database example_db) = Some example_table
   \<and> budgets example_db = Some \<lparr>rows = [], seq = 0\<rparr>
   \<and> budgets (init_database example_db) = Some \<lparr>rows = [], seq = 0\<rparr>
   \<and> income example_db = Some \<lparr>rows = [], seq = 0\<rparr>
   \<and> income (init_database example_db) = Some \<lparr>rows = [], seq = 0\<rparr>
   \<and> init_database example_db = example_db"
proof -
  have h: "expenses example_db = Some example_table
      \<and> budgets example_db = Some \<lparr>rows = [], seq = 0\<rparr>
      \<and> income example_db = Some \<lparr>rows = [], seq = 0\<rparr>"
    by (simp add: example_db_def)
  have i: "init_database example_db = example_db"
    by (simp add: init_database_def create_table_if_not_exists_def example_db_def)
  from init_database_idempotent [of 2 example_db] h i
  show ?thesis by simp
qed

text \<open>
  C9, as stated: the value returned by \<open>categorize\<close> is always one of the eleven categories.
  \<open>load_or_create_model\<close> takes whatever model the pickle file holds; with a model trained
  elsewhere on other labels, \<open>categorize\<close> returns a label outside the list.
\<close>

theorem categorize_foreign_pickle_counterexample:
  "categorize id (Some (load_or_create_model first_label_fit (Some (Inr foreign_model))))
     (Some ''casino night'') = Inr ''Gambling''
   \<and> ''Gambling'' \<notin> set categories"
  by (simp add: load_or_create_model_def foreign_model_def categorize_def categorize_try_def
      first_def py_max_def categories_def)

text \<open>
  C9, amended: with a classifier that predicts only labels it was trained on, and a pickle
  file that is absent, unreadable or holds what \<open>save_model\<close> wrote, the value \<open>categorize\<close>
  returns is always one of the eleven categories: a label of the bundled training examples
  or 'Miscellaneous'.
\<close>

theorem categorize_in_categories:
  assumes "predicts_training_labels fit"
    and "pkl = None \<or> (\<exists>e. pkl = Some (Inl e)) \<or> pkl = Some (Inr (create_initial_model fit))"
  shows "\<exists>c. categorize ul (Some (load_or_create_model fit pkl)) d = Inr c \<and> c \<in> set categories"
proof -
  let ?m = "create_initial_model fit"
  from assms(2) have m: "load_or_create_model fit pkl = ?m"
    by (auto simp add: load_or_create_model_def)
  from categorize_returns [of ul "Some ?m" d]
  show ?thesis
  proof
    assume "categorize ul (Some ?m) d = Inr ''Miscellaneous''"
    then show ?thesis using m Miscellaneous_in_categories by simp
  next
    assume "\<exists>md s ps. Some ?m = Some md \<and> d = Some s \<and> predict md [lower ul s] = Inr ps
      \<and> ps \<noteq> [] \<and> categorize ul (Some ?m) d = Inr (hd ps)"
    then obtain s ps where p: "predict ?m [lower ul s] = Inr ps" and ne: "ps \<noteq> []"
      and c: "categorize ul (Some ?m) d = Inr (hd ps)" by auto
    from p assms(1) have "set ps \<subseteq> set (map snd training_data)"
      unfolding predicts_training_labels_def create_initial_model_def by blast
    with ne have "hd ps \<in> set categories"
      using training_labels_in_categories hd_in_set by blast
    with c m show ?thesis by simp
  qed
qed

theorem categorize_in_categories_witness:
  "predicts_training_labels first_label_fit
   \<and> categorize id (Some (load_or_create_model first_label_fit None)) (Some ''Pizza Delivery'')
       = Inr ''Food & Dining''
   \<and> ''Food & Dining'' \<in> set categories"
proof -
  have h1: "predicts_training_labels first_label_fit"
    by (auto simp add: predicts_training_labels_def first_label_fit_def dest: in_set_takeD)
  have h2: "(None :: (error + model) option) = None \<or> (\<exists>e. None = Some (Inl e))
      \<or> None = Some (Inr (create_initial_model first_label_fit))"
    by simp
  have v: "categorize id (Some (load_or_create_model first_label_fit None))
      (Some ''Pizza Delivery'') = Inr ''Food & Dining''"
    by (simp add: load_or_create_model_def create_initial_model_def first_label_fit_def
        training_data_def categorize_def categorize_try_def first_def py_max_def)
  from categorize_in_categories [OF h1 h2, of id "Some ''Pizza Delivery''"] h1 v
  show ?thesis by auto
qed

text \<open>
  C10. When a bound of \<open>get_expenses\<close> is not supplied or is the empty string, no date
  filter is applied: the call returns what the call without bounds returns, and that is
  every expense record of the store.
\<close>

theorem get_expenses_unfiltered:
  assumes "start_date = None \<or> end_date = None \<or> start_date = Some [] \<or> end_date = Some []"
  shows "get_expenses db start_date end_date = get_expenses db None None
         \<and> (\<forall>t. expenses db = Some t \<longrightarrow>
               (\<exists>rs. get_expenses db start_date end_date = Inr rs \<and> mset rs = mset (rows t)))"
proof -
  from assms have nt: "\<not> (truthy start_date \<and> truthy end_date)"
    by (auto simp add: truthy_def)
  have "\<not> truthy None" by (simp add: truthy_def)
  with nt have "get_expenses db start_date end_date = get_expenses db None None"
    by (cases "expenses db") (auto simp add: get_expenses_def)
  moreover have "\<exists>rs. get_expenses db start_date end_date = Inr rs \<and> mset rs = mset (rows t)"
    if "expenses db = Some t" for t
    using that nt
    by (auto simp add: get_expenses_selected selected_def mset_order_by_date_desc)
  ultimately show ?thesis by blast
qed

theorem get_expenses_unfiltered_witness:
  "get_expenses example_db (Some ''2024-03-12'') (Some []) = get_expenses example_db None None
   \<and> expenses example_db = Some example_table
   \<and> get_expenses example_db (Some ''2024-03-12'') (Some [])
       = Inr [example_row3, example_row2, example_row1]
   \<and> mset [example_row3, example_row2, example_row1] = mset (rows example_table)"
proof -
  have h: "Some ''2024-03-12'' = None \<or> Some [] = None \<or> Some ''2024-03-12'' = Some []
      \<or> Some ([] :: string) = Some []"
    by simp
  have t: "expenses example_db = Some example_table"
    by (simp add: example_db_def)
  have v: "get_expenses example_db (Some ''2024-03-12'') (Some [])
      = Inr [example_row3, example_row2, example_row1]"
    by (simp add: get_expenses_def example_db_def example_table_def example_rows_def
        example_row1_def example_row2_def example_row3_def truthy_def order_by_date_desc_def)
  have ms: "mset [example_row3, example_row2, example_row1] = mset (rows example_table)"
    by (simp add: example_table_def example_rows_def)
  from get_expenses_unfiltered [OF h, of example_db] t v ms
  show ?thesis by simp
qed

end
